theory Spec2Isabelle
  imports Complex_Main
begin

section \<open>JavaScript values that the reliability modules inspect\<close>

text \<open>
  The retry wrapper and the secrets cache look at whatever a rejected promise carries.
  Three shapes occur in the sources and their tests: \<open>undefined\<close>, a plain string, and
  an \<open>Error\<close> object, of which the code reads \<open>name\<close>, \<open>message\<close> and the optional
  \<open>code\<close> property. \<open>JsError n m c\<close> is an Error object with name \<open>n\<close>, message
  \<open>m\<close> and code \<open>c\<close> (\<open>None\<close> when the property is undefined).
\<close>

datatype thrown = JsUndefined | JsString string | JsError string string "string option"

text \<open>\<open>String.prototype.startsWith\<close> and \<open>String.prototype.includes\<close>.\<close>

fun startsWith :: "string \<Rightarrow> string \<Rightarrow> bool" where
  "startsWith s [] = True"
| "startsWith [] (c # cs) = False"
| "startsWith (x # xs) (c # cs) = (x = c \<and> startsWith xs cs)"

fun includesStr :: "string \<Rightarrow> string \<Rightarrow> bool" where
  "includesStr [] t = (t = [])"
| "includesStr (x # xs) t = (startsWith (x # xs) t \<or> includesStr xs t)"

text \<open>\<open>String(v)\<close>; for an Error object this is \<open>Error.prototype.toString\<close>.\<close>

fun toString :: "thrown \<Rightarrow> string" where
  "toString JsUndefined = ''undefined''"
| "toString (JsString s) = s"
| "toString (JsError n m c) =
     (if n = [] then m else if m = [] then n else n @ '': '' @ m)"

text \<open>
  Rendering of an integral number inside a template literal. A JavaScript number is a
  binary64 value: every integer of magnitude at most \<open>2 ^ 53\<close> is one, and the
  language renders it by its decimal digits, with a leading minus sign when negative.
  \<open>numberToString\<close> computes those digits. Beyond that range the language rounds to
  the shortest digits that read back, and from \<open>1e21\<close> on it uses exponent form;
  \<open>numberToString\<close> does not describe that, so every statement below that mentions
  a rendered number is restricted to \<open>safeInteger\<close> values.
\<close>

definition digitChar :: "nat \<Rightarrow> char" where
  "digitChar d = ''0123456789'' ! d"

fun natToString :: "nat \<Rightarrow> string" where
  "natToString n =
     (if n < 10 then [digitChar n] else natToString (n div 10) @ [digitChar (n mod 10)])"

declare natToString.simps [simp del]

definition numberToString :: "int \<Rightarrow> string" where
  "numberToString i =
     (if i < 0 then CHR ''-'' # natToString (nat (- i)) else natToString (nat i))"

definition safeInteger :: "int \<Rightarrow> bool" where
  "safeInteger i = (- (2 ^ 53) \<le> i \<and> i \<le> 2 ^ 53)"

section \<open>retry: backoff calculator and retry executor\<close>

text \<open>
  \<open>RetryConfig\<close> as declared in the retry module. \<open>maxAttempts\<close> is an integer.
  The delay settings are JavaScript numbers, written here as the real numbers they
  denote.
\<close>

record RetryConfig =
  maxAttempts :: int
  baseDelayMs :: real
  maxDelayMs :: real
  backoffMultiplier :: real
  jitter :: bool

definition RETRYABLE_ERRORS :: "string list" where
  "RETRYABLE_ERRORS =
     [''ECONNRESET'', ''ENOTFOUND'', ''ECONNREFUSED'', ''ETIMEDOUT'', ''ENETUNREACH'',
      ''ThrottlingException'', ''ServiceUnavailableException'',
      ''TooManyRequestsException'']"

text \<open>
  \<open>isRetryableError\<close>: a falsy value is not retryable; otherwise
  \<open>errorMessage = error.message || error.toString()\<close> and
  \<open>errorCode = error.code || error.name\<close> are matched against the table. A string has
  neither \<open>message\<close> nor \<open>code\<close> nor \<open>name\<close>, so only its text is searched.
\<close>

fun isRetryableError :: "thrown \<Rightarrow> bool" where
  "isRetryableError JsUndefined = False"
| "isRetryableError (JsString s) =
     (if s = [] then False
      else list_ex (\<lambda>retryableError. includesStr s retryableError) RETRYABLE_ERRORS)"
| "isRetryableError (JsError n m c) =
     (let errorMessage = (if m \<noteq> [] then m else toString (JsError n m c));
          errorCode = (case c of None \<Rightarrow> n | Some k \<Rightarrow> if k \<noteq> [] then k else n)
      in list_ex (\<lambda>retryableError.
            includesStr errorMessage retryableError \<or> errorCode = retryableError)
          RETRYABLE_ERRORS)"

text \<open>
  \<open>calculateDelay\<close>; the third argument is the value \<open>Math.random()\<close> returns, read
  only when \<open>jitter\<close> is set. The definition applies the exact operations. The code
  applies the binary64 ones, which round, overflow to \<open>Infinity\<close> and yield \<open>NaN\<close>
  for \<open>0 * Infinity\<close>; the two agree where every intermediate value is an integer
  of at most \<open>2 ^ 53\<close>, since such integers are binary64 values, a binary64 product
  that is representable is returned as it is, \<open>Math.pow\<close> of two integers returns the
  integer power when it is representable, and \<open>Math.min\<close> and \<open>Math.floor\<close> do
  not round. \<open>exactInBinary64\<close> below is that condition for the path without jitter,
  and the statement about \<open>calculateDelay\<close> is made under it.
\<close>

definition calculateDelay :: "nat \<Rightarrow> RetryConfig \<Rightarrow> real \<Rightarrow> int" where
  "calculateDelay attempt config rnd =
     (let delay = baseDelayMs config * backoffMultiplier config ^ attempt;
          delay = min delay (maxDelayMs config);
          delay = (if jitter config then delay * (0.5 + rnd * 0.5) else delay)
      in \<lfloor>delay\<rfloor>)"



text \<open>
  The text of the error thrown after the loop:
  \<open>`${context} - Failed after ${config.maxAttempts} attempts. Last error:
  ${lastError?.message || lastError}`\<close>. \<open>lastErrorText\<close> is the interpolated last
  part; \<open>lastError\<close> is \<open>None\<close> while the variable is still unassigned.
\<close>

fun lastErrorText :: "thrown option \<Rightarrow> string" where
  "lastErrorText None = ''undefined''"
| "lastErrorText (Some JsUndefined) = ''undefined''"
| "lastErrorText (Some (JsString s)) = s"
| "lastErrorText (Some (JsError n m c)) = (if m \<noteq> [] then m else toString (JsError n m c))"

definition failureMessage :: "string \<Rightarrow> int \<Rightarrow> thrown option \<Rightarrow> string" where
  "failureMessage context n lastError =
     context @ '' - Failed after '' @ numberToString n @ '' attempts. Last error: ''
       @ lastErrorText lastError"

text \<open>
  What one call of \<open>withRetry\<close> does: how it settles, how often it invoked the wrapped
  function, and the delays it waited for, in order.
\<close>

record 'a retry_run =
  outcome :: "thrown + 'a"
  invocations :: nat
  waits :: "int list"

text \<open>
  The \<open>for\<close> loop of \<open>withRetry\<close>. The wrapped function is given by its settlements:
  \<open>fn k\<close> is how its \<open>k\<close>-th invocation (from 0) settles, \<open>Inl\<close> a rejection.
  \<open>rnd k\<close> is the \<open>Math.random()\<close> value drawn after attempt \<open>k\<close>. The loop state is
  the attempt counter, \<open>lastError\<close> and the delays waited so far.
\<close>

function withRetry_loop ::
  "(nat \<Rightarrow> thrown + 'a) \<Rightarrow> RetryConfig \<Rightarrow> string \<Rightarrow> (nat \<Rightarrow> real) \<Rightarrow>
   nat \<Rightarrow> thrown option \<Rightarrow> int list \<Rightarrow> 'a retry_run" where
  "withRetry_loop fn config context rnd attempt lastError waited =
     (if int attempt < maxAttempts config then
        (case fn attempt of
           Inr result \<Rightarrow>
             \<lparr>outcome = Inr result, invocations = attempt + 1, waits = waited\<rparr>
         | Inl error \<Rightarrow>
             if int attempt = maxAttempts config - 1 then
               \<lparr>outcome = Inl (JsError ''Error''
                    (failureMessage context (maxAttempts config) (Some error)) None),
                invocations = attempt + 1, waits = waited\<rparr>
             else if \<not> isRetryableError error then
               \<lparr>outcome = Inl (JsError ''Error''
                    (failureMessage context (maxAttempts config) (Some error)) None),
                invocations = attempt + 1, waits = waited\<rparr>
             else
               withRetry_loop fn config context rnd (attempt + 1) (Some error)
                 (waited @ [calculateDelay attempt config (rnd attempt)]))
      else
        \<lparr>outcome = Inl (JsError ''Error''
             (failureMessage context (maxAttempts config) lastError) None),
         invocations = attempt, waits = waited\<rparr>)"
  by pat_completeness auto
termination
  by (relation "measure (\<lambda>(fn, config, context, rnd, attempt, lastError, waited).
        nat (maxAttempts config - int attempt))") auto

declare withRetry_loop.simps [simp del]

definition withRetry ::
  "(nat \<Rightarrow> thrown + 'a) \<Rightarrow> RetryConfig \<Rightarrow> string \<Rightarrow> (nat \<Rightarrow> real) \<Rightarrow> 'a retry_run" where
  "withRetry fn config context rnd = withRetry_loop fn config context rnd 0 None []"

section \<open>secretsCache: the credential cache\<close>

text \<open>
  The parsed secret is a JSON object whose properties the code reads by name; it is
  modelled as a map from property names to string values (an absent property reads as
  \<open>undefined\<close>). Times and durations are integer milliseconds.
\<close>

type_synonym SecretsConfig = "string \<rightharpoonup> string"

record CachedSecret =
  data :: SecretsConfig
  timestamp :: int
  ttl :: int

text \<open>
  The module state: the \<open>secretsCache\<close> map, and a log holding the \<open>SecretId\<close> of
  every \<open>GetSecretValueCommand\<close> passed to \<open>secretsClient.send\<close>, oldest first.
\<close>

record secrets_state =
  secretsCache :: "string \<rightharpoonup> CachedSecret"
  sendCalls :: "string list"

text \<open>
  What the surroundings answer during one call: the value of \<open>Date.now()\<close>, how
  \<open>secretsClient.send\<close> settles (\<open>Inl\<close> a rejection, \<open>Inr\<close> the \<open>SecretString\<close>
  of the response, \<open>None\<close> when it is null or undefined), and \<open>JSON.parse\<close>.
\<close>

record secrets_env =
  dateNow :: int
  sendResult :: "thrown + string option"
  jsonParse :: "string \<Rightarrow> thrown + SecretsConfig"

definition requiredFields :: "string list" where
  "requiredFields = [''gitUserEmail'', ''gitUserName'', ''githubToken'', ''repositoryUrl'']"

text \<open>\<open>!secrets[field]\<close>: the property is undefined or the empty string.\<close>

definition fieldMissing :: "SecretsConfig \<Rightarrow> string \<Rightarrow> bool" where
  "fieldMissing secrets field = (case secrets field of None \<Rightarrow> True | Some v \<Rightarrow> v = [])"

text \<open>The \<open>for (const field of requiredFields)\<close> loop.\<close>

fun validateRequiredFields :: "SecretsConfig \<Rightarrow> string list \<Rightarrow> thrown + unit" where
  "validateRequiredFields secrets [] = Inr ()"
| "validateRequiredFields secrets (field # rest) =
     (if fieldMissing secrets field
      then Inl (JsError ''Error'' (''Missing required secret field: '' @ field) None)
      else validateRequiredFields secrets rest)"

text \<open>The body of the \<open>try\<close> block of \<open>getCachedSecrets\<close>.\<close>

definition fetchFreshSecrets ::
  "string \<Rightarrow> int \<Rightarrow> secrets_env \<Rightarrow> secrets_state \<Rightarrow> (thrown + SecretsConfig) \<times> secrets_state" where
  "fetchFreshSecrets secretName ttlArg env st =
     (let st1 = st\<lparr>sendCalls := sendCalls st @ [secretName]\<rparr> in
      case sendResult env of
        Inl error \<Rightarrow> (Inl error, st1)
      | Inr None \<Rightarrow> (Inl (JsError ''Error'' ''Secret value is empty or not found'' None), st1)
      | Inr (Some secretString) \<Rightarrow>
          if secretString = [] then
            (Inl (JsError ''Error'' ''Secret value is empty or not found'' None), st1)
          else
            (case jsonParse env secretString of
               Inl error \<Rightarrow> (Inl error, st1)
             | Inr secrets \<Rightarrow>
                 (case validateRequiredFields secrets requiredFields of
                    Inl error \<Rightarrow> (Inl error, st1)
                  | Inr u \<Rightarrow>
                      (Inr secrets,
                       st1\<lparr>secretsCache := (secretsCache st1)(secretName \<mapsto>
                         \<lparr>data = secrets, timestamp = dateNow env, ttl = ttlArg\<rparr>)\<rparr>))))"

text \<open>\<open>error instanceof Error ? error.message : 'Unknown error'\<close>.\<close>

fun messageOrUnknown :: "thrown \<Rightarrow> string" where
  "messageOrUnknown (JsError n m c) = m"
| "messageOrUnknown v = ''Unknown error''"

definition getCachedSecrets ::
  "string \<Rightarrow> int \<Rightarrow> secrets_env \<Rightarrow> secrets_state \<Rightarrow> (thrown + SecretsConfig) \<times> secrets_state" where
  "getCachedSecrets secretName ttlArg env st =
     (case secretsCache st secretName of
        Some cached \<Rightarrow>
          if dateNow env - timestamp cached < ttl cached then (Inr (data cached), st)
          else
            (case fetchFreshSecrets secretName ttlArg env st of
               (Inl error, st') \<Rightarrow>
                 (Inl (JsError ''Error''
                    (''Failed to retrieve secrets: '' @ messageOrUnknown error) None), st')
             | (Inr secretsConfig, st') \<Rightarrow> (Inr secretsConfig, st'))
      | None \<Rightarrow>
          (case fetchFreshSecrets secretName ttlArg env st of
             (Inl error, st') \<Rightarrow>
               (Inl (JsError ''Error''
                  (''Failed to retrieve secrets: '' @ messageOrUnknown error) None), st')
           | (Inr secretsConfig, st') \<Rightarrow> (Inr secretsConfig, st')))"

text \<open>
  \<open>clearSecretsCache(secretName?)\<close>: a truthy name deletes that entry, anything else
  clears the map.
\<close>

definition clearSecretsCache :: "string option \<Rightarrow> secrets_state \<Rightarrow> secrets_state" where
  "clearSecretsCache secretName st =
     (case secretName of
        None \<Rightarrow> st\<lparr>secretsCache := Map.empty\<rparr>
      | Some n \<Rightarrow>
          if n \<noteq> [] then st\<lparr>secretsCache := (secretsCache st)(n := None)\<rparr>
          else st\<lparr>secretsCache := Map.empty\<rparr>)"

section \<open>monitoringOptimized: the metrics batch\<close>

record OptimizedMetrics =
  executionDuration :: int
  success :: bool
  errorCount :: int
  retryCount :: int

record MetricDatum =
  MetricName :: string
  Value :: real
  Unit :: string
  Timestamp :: int

record PutMetricDataCommand =
  Namespace :: string
  MetricData :: "MetricDatum list"

text \<open>
  Arrays are objects: the module variable \<open>metricsCache\<close> and the property
  \<open>global.metricsCache\<close> each hold a reference, and the code both mutates the array
  (\<open>push\<close>) and rebinds the variables (\<open>= []\<close>). The state therefore has a store of
  array objects by address, the two references, \<open>lastMetricsSend\<close>, and the log of the
  commands passed to \<open>cloudWatchClient.send\<close>, oldest first.
\<close>

record monitoring_state =
  arrays :: "nat \<Rightarrow> OptimizedMetrics list"
  nextArray :: nat
  metricsCache :: nat
  globalMetricsCache :: "nat option"
  lastMetricsSend :: int
  published :: "PutMetricDataCommand list"

definition METRICS_BATCH_TIMEOUT :: int where
  "METRICS_BATCH_TIMEOUT = 300000"

text \<open>The array literal \<open>[]\<close>: a new, empty array object.\<close>

definition newArray :: "monitoring_state \<Rightarrow> nat \<times> monitoring_state" where
  "newArray st =
     (nextArray st,
      st\<lparr>arrays := (arrays st)(nextArray st := []), nextArray := nextArray st + 1\<rparr>)"

text \<open>
  The state right after the module is loaded: \<open>let metricsCache = []\<close>,
  \<open>lastMetricsSend = 0\<close>, and \<open>global.metricsCache = metricsCache\<close>.
\<close>

definition monitoringLoaded :: monitoring_state where
  "monitoringLoaded =
     \<lparr>arrays = (\<lambda>a. []), nextArray = 1, metricsCache = 0, globalMetricsCache = Some 0,
      lastMetricsSend = 0, published = []\<rparr>"

text \<open>The in-memory batch: the array the module variable refers to.\<close>

definition batch :: "monitoring_state \<Rightarrow> OptimizedMetrics list" where
  "batch st = arrays st (metricsCache st)"

record AggregatedMetrics =
  totalExecutions :: nat
  successfulExecutions :: nat
  failedExecutions :: nat
  averageDuration :: real
  totalErrors :: int
  totalRetries :: int

definition aggregatedMetrics :: "OptimizedMetrics list \<Rightarrow> AggregatedMetrics" where
  "aggregatedMetrics cache =
     \<lparr>totalExecutions = length cache,
      successfulExecutions = length (filter (\<lambda>m. success m) cache),
      failedExecutions = length (filter (\<lambda>m. \<not> success m) cache),
      averageDuration =
        real_of_int (foldl (\<lambda>sum m. sum + executionDuration m) 0 cache) / real (length cache),
      totalErrors = foldl (\<lambda>sum m. sum + errorCount m) 0 cache,
      totalRetries = foldl (\<lambda>sum m. sum + retryCount m) 0 cache\<rparr>"

definition metricData :: "AggregatedMetrics \<Rightarrow> int \<Rightarrow> MetricDatum list" where
  "metricData agg ts =
     [\<lparr>MetricName = ''TotalExecutions'', Value = real (totalExecutions agg),
        Unit = ''Count'', Timestamp = ts\<rparr>,
      \<lparr>MetricName = ''SuccessRate'',
        Value = real (successfulExecutions agg) / real (totalExecutions agg),
        Unit = ''Percent'', Timestamp = ts\<rparr>,
      \<lparr>MetricName = ''AverageExecutionDuration'', Value = averageDuration agg,
        Unit = ''Milliseconds'', Timestamp = ts\<rparr>,
      \<lparr>MetricName = ''TotalErrors'', Value = real_of_int (totalErrors agg),
        Unit = ''Count'', Timestamp = ts\<rparr>,
      \<lparr>MetricName = ''TotalRetries'', Value = real_of_int (totalRetries agg),
        Unit = ''Count'', Timestamp = ts\<rparr>]"

text \<open>
  What the surroundings answer during one flush: \<open>new Date()\<close> before the send, how
  \<open>cloudWatchClient.send\<close> settles, and \<open>Date.now()\<close> after a successful send.
\<close>

record flush_env =
  flushDate :: int
  publishResult :: "thrown + unit"
  nowAfterSend :: int

text \<open>The body of the \<open>try\<close> block of \<open>sendBatchedMetrics\<close>.\<close>

definition sendBatchedMetrics_try ::
  "string \<Rightarrow> flush_env \<Rightarrow> monitoring_state \<Rightarrow> (thrown + unit) \<times> monitoring_state" where
  "sendBatchedMetrics_try functionName env st =
     (let command = \<lparr>Namespace = ''Lambda/'' @ functionName,
                      MetricData = metricData (aggregatedMetrics (batch st)) (flushDate env)\<rparr>;
          st1 = st\<lparr>published := published st @ [command]\<rparr>
      in case publishResult env of
           Inl error \<Rightarrow> (Inl error, st1)
         | Inr u \<Rightarrow>
             (let (a, st2) = newArray st1
              in (Inr (), st2\<lparr>metricsCache := a, lastMetricsSend := nowAfterSend env\<rparr>)))"

text \<open>
  \<open>sendBatchedMetrics\<close>: nothing on an empty batch; otherwise the \<open>try\<close> block, and a
  \<open>catch\<close> that rebinds \<open>metricsCache\<close> to a new empty array and swallows the error.
\<close>

definition sendBatchedMetrics ::
  "string \<Rightarrow> flush_env \<Rightarrow> monitoring_state \<Rightarrow> monitoring_state" where
  "sendBatchedMetrics functionName env st =
     (if length (batch st) = 0 then st
      else
        (case sendBatchedMetrics_try functionName env st of
           (Inr u, st') \<Rightarrow> st'
         | (Inl error, st') \<Rightarrow>
             (let (a, st2) = newArray st' in st2\<lparr>metricsCache := a\<rparr>)))"

text \<open>
  \<open>sendOptimizedMetrics\<close>. \<open>batchSize\<close> is the module constant \<open>METRICS_BATCH_SIZE\<close>
  (\<open>config.metricsBatchSize\<close>) and \<open>now\<close> the value of \<open>Date.now()\<close> after the push.
\<close>

definition sendOptimizedMetrics ::
  "int \<Rightarrow> OptimizedMetrics \<Rightarrow> string \<Rightarrow> int \<Rightarrow> flush_env \<Rightarrow> monitoring_state \<Rightarrow> monitoring_state" where
  "sendOptimizedMetrics batchSize metrics functionName now env st =
     (let st1 = st\<lparr>arrays := (arrays st)(metricsCache st := arrays st (metricsCache st) @ [metrics])\<rparr>;
          shouldSend = (int (length (batch st1)) \<ge> batchSize
                        \<or> now - lastMetricsSend st1 > METRICS_BATCH_TIMEOUT)
      in if shouldSend then sendBatchedMetrics functionName env st1 else st1)"

section \<open>lambdaCleanup: the lifecycle reset\<close>

text \<open>
  The process state the cleanup touches: both module states and the log of the commands
  given to \<open>executeGitCommand\<close>. \<open>git_env\<close> says how each of the three git commands
  settles.
\<close>

record lambda_state =
  secrets :: secrets_state
  monitoring :: monitoring_state
  gitCommands :: "string list"

record git_env =
  revParse :: "thrown + string"
  resetHard :: "thrown + string"
  cleanFd :: "thrown + string"

definition runGit :: "string \<Rightarrow> lambda_state \<Rightarrow> lambda_state" where
  "runGit command st = st\<lparr>gitCommands := gitCommands st @ [command]\<rparr>"

text \<open>
  \<open>resetGitState\<close>: a failing \<open>rev-parse\<close> returns early, a failing \<open>reset\<close> or
  \<open>clean\<close> is caught on the spot and the function goes on.
\<close>

definition resetGitState :: "git_env \<Rightarrow> lambda_state \<Rightarrow> (thrown + unit) \<times> lambda_state" where
  "resetGitState env st =
     (let st1 = runGit ''git rev-parse --git-dir'' st in
      case revParse env of
        Inl error \<Rightarrow> (Inr (), st1)
      | Inr out \<Rightarrow>
          (let st2 = runGit ''git reset --hard HEAD'' st1;
               st2 = (case resetHard env of Inl error \<Rightarrow> st2 | Inr out2 \<Rightarrow> st2);
               st3 = runGit ''git clean -fd'' st2;
               st3 = (case cleanFd env of Inl error \<Rightarrow> st3 | Inr out3 \<Rightarrow> st3)
           in (Inr (), st3)))"

text \<open>The body of the \<open>try\<close> block of \<open>cleanupLambdaState\<close>.\<close>

definition cleanupLambdaState_try ::
  "git_env \<Rightarrow> lambda_state \<Rightarrow> (thrown + unit) \<times> lambda_state" where
  "cleanupLambdaState_try env st =
     (let st1 = st\<lparr>secrets := clearSecretsCache None (secrets st)\<rparr>;
          st2 = (case globalMetricsCache (monitoring st1) of
                   None \<Rightarrow> st1
                 | Some old \<Rightarrow>
                     (let (a, m) = newArray (monitoring st1)
                      in st1\<lparr>monitoring := m\<lparr>globalMetricsCache := Some a\<rparr>\<rparr>))
      in resetGitState env st2)"

text \<open>\<open>cleanupLambdaState\<close>: the \<open>catch\<close> logs the error and does not rethrow.\<close>

definition cleanupLambdaState ::
  "git_env \<Rightarrow> lambda_state \<Rightarrow> (thrown + unit) \<times> lambda_state" where
  "cleanupLambdaState env st =
     (case cleanupLambdaState_try env st of
        (Inl error, st') \<Rightarrow> (Inr (), st')
      | (Inr u, st') \<Rightarrow> (Inr (), st'))"

section \<open>validation: the rate limiter\<close>

record RateLimitEntry =
  count :: int
  resetTime :: int

text \<open>
  \<open>checkRateLimit\<close>, with \<open>now\<close> the value of \<open>Date.now()\<close>; the result is the
  boolean and the updated \<open>rateLimitMap\<close>. \<open>current.count++\<close> changes the entry
  held by the map.
\<close>

definition checkRateLimit ::
  "string \<Rightarrow> int \<Rightarrow> int \<Rightarrow> int \<Rightarrow> (string \<rightharpoonup> RateLimitEntry) \<Rightarrow>
   bool \<times> (string \<rightharpoonup> RateLimitEntry)" where
  "checkRateLimit identifier maxRequests windowMs now rateLimitMap =
     (case rateLimitMap identifier of
        None \<Rightarrow>
          (True, rateLimitMap(identifier \<mapsto> \<lparr>count = 1, resetTime = now + windowMs\<rparr>))
      | Some current \<Rightarrow>
          if now > resetTime current then
            (True, rateLimitMap(identifier \<mapsto> \<lparr>count = 1, resetTime = now + windowMs\<rparr>))
          else if count current \<ge> maxRequests then (False, rateLimitMap)
          else (True, rateLimitMap(identifier \<mapsto> current\<lparr>count := count current + 1\<rparr>)))"

text \<open>
  A sequence of calls for one identifier at the given times, threading the map; the
  results are returned in call order.
\<close>

fun checkRateLimit_calls ::
  "string \<Rightarrow> int \<Rightarrow> int \<Rightarrow> int list \<Rightarrow> (string \<rightharpoonup> RateLimitEntry) \<Rightarrow>
   bool list \<times> (string \<rightharpoonup> RateLimitEntry)" where
  "checkRateLimit_calls identifier maxRequests windowMs [] m = ([], m)"
| "checkRateLimit_calls identifier maxRequests windowMs (now # later) m =
     (let (r, m1) = checkRateLimit identifier maxRequests windowMs now m;
          (rs, m2) = checkRateLimit_calls identifier maxRequests windowMs later m1
      in (r # rs, m2))"

section \<open>Concrete runs\<close>

text \<open>
  Inputs taken from the repository's tests and configuration, used to run the
  definitions above on explicit values.
\<close>

definition validationError :: thrown where
  "validationError = JsError ''Error'' ''Validation failed'' None"

definition alwaysValidationFailed :: "nat \<Rightarrow> thrown + unit" where
  "alwaysValidationFailed k = Inl validationError"

definition testError :: thrown where
  "testError = JsError ''Error'' ''Test error'' None"

definition alwaysTestError :: "nat \<Rightarrow> thrown + unit" where
  "alwaysTestError k = Inl testError"

definition halfDraws :: "nat \<Rightarrow> real" where
  "halfDraws k = 1 / 2"

text \<open>\<open>DEFAULT_RETRY_CONFIG\<close> outside production, and variants of it.\<close>

definition developmentRetryConfig :: RetryConfig where
  "developmentRetryConfig =
     \<lparr>maxAttempts = 2, baseDelayMs = 1000, maxDelayMs = 5000, backoffMultiplier = 2,
      jitter = True\<rparr>"

definition zeroAttemptsConfig :: RetryConfig where
  "zeroAttemptsConfig = developmentRetryConfig\<lparr>maxAttempts := 0\<rparr>"

definition negativeAttemptsConfig :: RetryConfig where
  "negativeAttemptsConfig = developmentRetryConfig\<lparr>maxAttempts := - 1\<rparr>"


definition exampleSecrets :: SecretsConfig where
  "exampleSecrets =
     [''gitUserEmail'' \<mapsto> ''test@example.com'', ''gitUserName'' \<mapsto> ''Test User'',
      ''githubToken'' \<mapsto> ''ghp_test123'',
      ''repositoryUrl'' \<mapsto> ''https://github.com/test/repo.git'']"

definition incompleteSecrets :: SecretsConfig where
  "incompleteSecrets = [''gitUserEmail'' \<mapsto> ''test@example.com'']"

definition parseToExample :: "string \<Rightarrow> thrown + SecretsConfig" where
  "parseToExample s = Inr exampleSecrets"

definition parseToIncomplete :: "string \<Rightarrow> thrown + SecretsConfig" where
  "parseToIncomplete s = Inr incompleteSecrets"

text \<open>
  A store that answers with the complete secret, one that answers with an incomplete
  secret, and one whose request is rejected; the argument is the clock.
\<close>

definition storeAnswers :: "int \<Rightarrow> secrets_env" where
  "storeAnswers t =
     \<lparr>dateNow = t, sendResult = Inr (Some ''{secret}''), jsonParse = parseToExample\<rparr>"

definition storeIncomplete :: "int \<Rightarrow> secrets_env" where
  "storeIncomplete t =
     \<lparr>dateNow = t, sendResult = Inr (Some ''{secret}''), jsonParse = parseToIncomplete\<rparr>"

definition storeDown :: "int \<Rightarrow> secrets_env" where
  "storeDown t =
     \<lparr>dateNow = t, sendResult = Inl (JsError ''Error'' ''AWS SDK error'' None),
      jsonParse = parseToExample\<rparr>"

definition emptySecretsState :: secrets_state where
  "emptySecretsState = \<lparr>secretsCache = Map.empty, sendCalls = []\<rparr>"

definition afterFirstGet :: secrets_state where
  "afterFirstGet =
     snd (getCachedSecrets ''test-secret'' 60000 (storeAnswers 1000) emptySecretsState)"

definition metricA :: OptimizedMetrics where
  "metricA = \<lparr>executionDuration = 1000, success = True, errorCount = 0, retryCount = 0\<rparr>"

definition metricB :: OptimizedMetrics where
  "metricB = \<lparr>executionDuration = 2000, success = False, errorCount = 1, retryCount = 1\<rparr>"

definition sinkUp :: "int \<Rightarrow> flush_env" where
  "sinkUp t = \<lparr>flushDate = t, publishResult = Inr (), nowAfterSend = t + 1\<rparr>"

definition sinkDown :: "int \<Rightarrow> flush_env" where
  "sinkDown t =
     \<lparr>flushDate = t, publishResult = Inl (JsError ''Error'' ''CloudWatch error'' None),
      nowAfterSend = t + 1\<rparr>"

text \<open>
  A warm production process (batch size 10): the first invocation recorded \<open>metricA\<close>,
  which was flushed at once because \<open>lastMetricsSend\<close> was still 0; one minute later
  the second invocation recorded \<open>metricB\<close>, which stays in the batch.
\<close>

definition afterFirstRecord :: monitoring_state where
  "afterFirstRecord =
     sendOptimizedMetrics 10 metricA ''daily-commit'' 1700000000000 (sinkUp 1700000000000)
       monitoringLoaded"

definition afterSecondRecord :: monitoring_state where
  "afterSecondRecord =
     sendOptimizedMetrics 10 metricB ''daily-commit'' 1700000060000 (sinkUp 1700000060000)
       afterFirstRecord"

definition warmProcess :: lambda_state where
  "warmProcess =
     \<lparr>secrets = snd (getCachedSecrets ''daily-commit-secrets'' 300000
                   (storeAnswers 1700000059000) emptySecretsState),
      monitoring = afterSecondRecord,
      gitCommands = []\<rparr>"

definition gitResetFails :: git_env where
  "gitResetFails =
     \<lparr>revParse = Inr ''.git'', resetHard = Inl (JsError ''Error'' ''Git reset failed'' None),
      cleanFd = Inr []\<rparr>"

section \<open>Backoff calculator\<close>





section \<open>Retry executor\<close>

text \<open>
  C3, as the code has it. If every invocation of the wrapped function is rejected with
  a non-retryable error and \<open>maxAttempts\<close> is an integer from 1 to \<open>2 ^ 53\<close>,
  \<open>withRetry\<close> invokes the function exactly once, waits for nothing, and rejects
  with an Error whose message starts with the label, gives the configured
  \<open>maxAttempts\<close> in decimal digits as the number of attempts (not the single attempt
  made), and ends with the text of the underlying failure.
\<close>

theorem withRetry_non_retryable:
  assumes "1 \<le> maxAttempts config"
    and "safeInteger (maxAttempts config)"
    and "\<forall>k. \<exists>e. fn k = Inl e \<and> \<not> isRetryableError e"
  shows "\<exists>e. fn 0 = Inl e \<and>
     withRetry fn config context rnd =
       \<lparr>outcome = Inl (JsError ''Error''
          (context @ '' - Failed after '' @ numberToString (maxAttempts config)
             @ '' attempts. Last error: '' @ lastErrorText (Some e)) None),
        invocations = 1, waits = []\<rparr>"
proof -
  from assms(3) obtain e where e: "fn 0 = Inl e" "\<not> isRetryableError e"
    by blast
  have "withRetry fn config context rnd =
       \<lparr>outcome = Inl (JsError ''Error''
          (failureMessage context (maxAttempts config) (Some e)) None),
        invocations = 1, waits = []\<rparr>"
    using assms(1) e by (simp add: withRetry_def withRetry_loop.simps [of _ _ _ _ 0])
  with e show ?thesis
    by (auto simp: failureMessage_def)
qed

theorem withRetry_non_retryable_witness:
  "1 \<le> maxAttempts developmentRetryConfig
   \<and> safeInteger (maxAttempts developmentRetryConfig)
   \<and> \<not> isRetryableError validationError
   \<and> withRetry alwaysValidationFailed developmentRetryConfig ''test'' halfDraws =
       \<lparr>outcome = Inl (JsError ''Error''
          ''test - Failed after 2 attempts. Last error: Validation failed'' None),
        invocations = 1, waits = []\<rparr>"
proof -
  have nr: "\<not> isRetryableError validationError"
    by (simp add: validationError_def RETRYABLE_ERRORS_def)
  have h1: "1 \<le> maxAttempts developmentRetryConfig"
    by (simp add: developmentRetryConfig_def)
  have hs: "safeInteger (maxAttempts developmentRetryConfig)"
    by (simp add: developmentRetryConfig_def safeInteger_def)
  have h2: "\<forall>k. \<exists>e. alwaysValidationFailed k = Inl e \<and> \<not> isRetryableError e"
    using nr by (simp add: alwaysValidationFailed_def)
  from withRetry_non_retryable [OF h1 hs h2, of "''test''" halfDraws]
  obtain e where e: "alwaysValidationFailed 0 = Inl e"
    and run: "withRetry alwaysValidationFailed developmentRetryConfig ''test'' halfDraws =
       \<lparr>outcome = Inl (JsError ''Error''
          (''test'' @ '' - Failed after '' @ numberToString (maxAttempts developmentRetryConfig)
             @ '' attempts. Last error: '' @ lastErrorText (Some e)) None),
        invocations = 1, waits = []\<rparr>"
    by blast
  from e have "e = validationError"
    by (simp add: alwaysValidationFailed_def)
  then have "''test'' @ '' - Failed after '' @ numberToString (maxAttempts developmentRetryConfig)
             @ '' attempts. Last error: '' @ lastErrorText (Some e) =
        ''test - Failed after 2 attempts. Last error: Validation failed''"
    by (simp add: validationError_def developmentRetryConfig_def numberToString_def
        natToString.simps digitChar_def)
  with run nr h1 hs show ?thesis
    by simp
qed

text \<open>
  The claim as the specification words it, that the error reports the one attempt
  made, fails: with \<open>maxAttempts = 2\<close> the function is invoked once and the message
  says "Failed after 2 attempts".
\<close>

theorem withRetry_reports_maxAttempts_counterexample:
  "1 \<le> maxAttempts developmentRetryConfig
   \<and> \<not> isRetryableError validationError
   \<and> invocations (withRetry alwaysValidationFailed developmentRetryConfig ''test'' halfDraws) = 1
   \<and> outcome (withRetry alwaysValidationFailed developmentRetryConfig ''test'' halfDraws) =
       Inl (JsError ''Error''
         ''test - Failed after 2 attempts. Last error: Validation failed'' None)
   \<and> outcome (withRetry alwaysValidationFailed developmentRetryConfig ''test'' halfDraws) \<noteq>
       Inl (JsError ''Error'' (failureMessage ''test'' 1 (Some validationError)) None)"
  by (simp add: withRetry_def withRetry_loop.simps [of _ _ _ _ 0] failureMessage_def
      numberToString_def natToString.simps digitChar_def RETRYABLE_ERRORS_def
      alwaysValidationFailed_def validationError_def developmentRetryConfig_def)

text \<open>
  C8, as the code has it. If \<open>maxAttempts\<close> is an integer from \<open>- (2 ^ 53)\<close> to 0,
  \<open>withRetry\<close> never invokes the function, waits for nothing, and rejects at once
  with an Error whose message gives the configured \<open>maxAttempts\<close> itself, in decimal
  digits, as the number of attempts (zero when it is 0, the negative number otherwise)
  and \<open>undefined\<close> as the last error.
\<close>

theorem withRetry_no_attempts:
  assumes "maxAttempts config \<le> 0"
    and "safeInteger (maxAttempts config)"
  shows "withRetry fn config context rnd =
     \<lparr>outcome = Inl (JsError ''Error''
        (context @ '' - Failed after '' @ numberToString (maxAttempts config)
           @ '' attempts. Last error: undefined'') None),
      invocations = 0, waits = []\<rparr>"
  using assms(1) by (simp add: withRetry_def withRetry_loop.simps failureMessage_def)

theorem withRetry_no_attempts_witness:
  "maxAttempts zeroAttemptsConfig \<le> 0
   \<and> safeInteger (maxAttempts zeroAttemptsConfig)
   \<and> withRetry alwaysTestError zeroAttemptsConfig ''test'' halfDraws =
       \<lparr>outcome = Inl (JsError ''Error''
          ''test - Failed after 0 attempts. Last error: undefined'' None),
        invocations = 0, waits = []\<rparr>"
proof -
  have h: "maxAttempts zeroAttemptsConfig \<le> 0"
    by (simp add: zeroAttemptsConfig_def)
  have hs: "safeInteger (maxAttempts zeroAttemptsConfig)"
    by (simp add: zeroAttemptsConfig_def safeInteger_def)
  from withRetry_no_attempts [OF h hs, of alwaysTestError "''test''" halfDraws] h hs
  show ?thesis
    by (simp add: zeroAttemptsConfig_def numberToString_def natToString.simps digitChar_def)
qed

text \<open>
  The claim as the specification words it, that zero attempts are reported whenever
  \<open>maxAttempts \<le> 0\<close>, fails at \<open>maxAttempts = -1\<close>: the message says
  "Failed after -1 attempts".
\<close>

theorem withRetry_negative_attempts_counterexample:
  "maxAttempts negativeAttemptsConfig \<le> 0
   \<and> withRetry alwaysTestError negativeAttemptsConfig ''test'' halfDraws =
       \<lparr>outcome = Inl (JsError ''Error''
          ''test - Failed after -1 attempts. Last error: undefined'' None),
        invocations = 0, waits = []\<rparr>
   \<and> outcome (withRetry alwaysTestError negativeAttemptsConfig ''test'' halfDraws) \<noteq>
       Inl (JsError ''Error'' (failureMessage ''test'' 0 None) None)"
  by (simp add: withRetry_def withRetry_loop.simps failureMessage_def numberToString_def
      natToString.simps digitChar_def negativeAttemptsConfig_def developmentRetryConfig_def)

section \<open>Credential cache\<close>

lemma fetchFreshSecrets_sendCalls:
  "sendCalls (snd (fetchFreshSecrets key ttlArg env st)) = sendCalls st @ [key]"
  by (simp add: fetchFreshSecrets_def Let_def split: sum.splits option.splits)

lemma fetchFreshSecrets_Inr:
  "fetchFreshSecrets key ttlArg env st = (Inr cfg, st') \<Longrightarrow>
   st' = st\<lparr>sendCalls := sendCalls st @ [key],
            secretsCache := (secretsCache st)(key \<mapsto>
               \<lparr>data = cfg, timestamp = dateNow env, ttl = ttlArg\<rparr>)\<rparr>"
  by (auto simp add: fetchFreshSecrets_def Let_def split: sum.splits option.splits if_splits)

lemma fetchFreshSecrets_Inl:
  "fetchFreshSecrets key ttlArg env st = (Inl e, st') \<Longrightarrow>
   st' = st\<lparr>sendCalls := sendCalls st @ [key]\<rparr>"
  by (auto simp add: fetchFreshSecrets_def Let_def split: sum.splits option.splits if_splits)

lemma validateRequiredFields_Inl:
  "validateRequiredFields parsed fs = Inl e \<Longrightarrow>
   \<exists>f\<in>set fs. fieldMissing parsed f \<and>
      e = JsError ''Error'' (''Missing required secret field: '' @ f) None"
  by (induction fs) (auto split: if_splits)

lemma validateRequiredFields_missing:
  "f \<in> set fs \<Longrightarrow> fieldMissing parsed f \<Longrightarrow> \<exists>e. validateRequiredFields parsed fs = Inl e"
  by (induction fs) auto

lemma getCachedSecrets_valid:
  "secretsCache st key = Some cached \<Longrightarrow> dateNow env - timestamp cached < ttl cached \<Longrightarrow>
   getCachedSecrets key ttlArg env st = (Inr (data cached), st)"
  by (simp add: getCachedSecrets_def)

text \<open>Without a valid entry the call is the fetch, with a rejection rewrapped.\<close>

lemma getCachedSecrets_stale:
  "\<forall>cached. secretsCache st key = Some cached \<longrightarrow>
      \<not> dateNow env - timestamp cached < ttl cached \<Longrightarrow>
   getCachedSecrets key ttlArg env st =
     (case fetchFreshSecrets key ttlArg env st of
        (Inl error, st') \<Rightarrow>
          (Inl (JsError ''Error''
             (''Failed to retrieve secrets: '' @ messageOrUnknown error) None), st')
      | (Inr secretsConfig, st') \<Rightarrow> (Inr secretsConfig, st'))"
  by (auto simp add: getCachedSecrets_def split: option.splits)

lemma getCachedSecrets_stale_sendCalls:
  assumes "\<forall>cached. secretsCache st key = Some cached \<longrightarrow>
      \<not> dateNow env - timestamp cached < ttl cached"
  shows "sendCalls (snd (getCachedSecrets key ttlArg env st)) = sendCalls st @ [key]"
  using fetchFreshSecrets_sendCalls [of key ttlArg env st]
  by (auto simp add: getCachedSecrets_stale [OF assms] split: prod.splits sum.splits)

lemma getCachedSecrets_fetched:
  assumes "getCachedSecrets key ttlArg env st = (Inr cfg, st1)"
    and "sendCalls st1 \<noteq> sendCalls st"
  shows "st1 = st\<lparr>sendCalls := sendCalls st @ [key],
            secretsCache := (secretsCache st)(key \<mapsto>
               \<lparr>data = cfg, timestamp = dateNow env, ttl = ttlArg\<rparr>)\<rparr>"
  using assms
  by (auto simp add: getCachedSecrets_def
      split: option.splits if_splits sum.splits prod.splits dest: fetchFreshSecrets_Inr)

text \<open>
  C5. Take a \<open>get(key, ttl)\<close> that returned a value and contacted the store, at clock
  \<open>dateNow env1\<close>. It sent exactly one request. A second \<open>get(key, ttl)\<close> at a clock
  less than \<open>ttl\<close> later returns the same value and leaves the state, hence the
  request log, untouched; a \<open>get(key, ttl)\<close> at a clock \<open>ttl\<close> or more later sends
  a second request.
\<close>

theorem getCachedSecrets_fetch_once:
  assumes "getCachedSecrets key ttlArg env1 st = (Inr cfg, st1)"
    and "sendCalls st1 \<noteq> sendCalls st"
    and "dateNow env2 - dateNow env1 < ttlArg"
    and "\<not> dateNow env3 - dateNow env1 < ttlArg"
  shows "sendCalls st1 = sendCalls st @ [key]
     \<and> getCachedSecrets key ttlArg env2 st1 = (Inr cfg, st1)
     \<and> sendCalls (snd (getCachedSecrets key ttlArg env3 st1)) = sendCalls st @ [key, key]"
proof -
  have st1: "st1 = st\<lparr>sendCalls := sendCalls st @ [key],
            secretsCache := (secretsCache st)(key \<mapsto>
               \<lparr>data = cfg, timestamp = dateNow env1, ttl = ttlArg\<rparr>)\<rparr>"
    using assms(1,2) by (rule getCachedSecrets_fetched)
  have first: "sendCalls st1 = sendCalls st @ [key]"
    by (simp add: st1)
  have second: "getCachedSecrets key ttlArg env2 st1 = (Inr cfg, st1)"
    using assms(3) by (simp add: getCachedSecrets_def st1)
  have "\<forall>cached. secretsCache st1 key = Some cached \<longrightarrow>
      \<not> dateNow env3 - timestamp cached < ttl cached"
    using assms(4) by (simp add: st1)
  then have "sendCalls (snd (getCachedSecrets key ttlArg env3 st1)) = sendCalls st1 @ [key]"
    by (rule getCachedSecrets_stale_sendCalls)
  with first second show ?thesis
    by simp
qed

theorem getCachedSecrets_fetch_once_witness:
  "getCachedSecrets ''test-secret'' 60000 (storeAnswers 1000) emptySecretsState =
     (Inr exampleSecrets, afterFirstGet)
   \<and> sendCalls afterFirstGet = [''test-secret'']
   \<and> getCachedSecrets ''test-secret'' 60000 (storeAnswers 60999) afterFirstGet =
       (Inr exampleSecrets, afterFirstGet)
   \<and> sendCalls (snd (getCachedSecrets ''test-secret'' 60000 (storeAnswers 61000) afterFirstGet)) =
       [''test-secret'', ''test-secret'']"
proof -
  have h1: "getCachedSecrets ''test-secret'' 60000 (storeAnswers 1000) emptySecretsState =
     (Inr exampleSecrets, afterFirstGet)"
    by (simp add: afterFirstGet_def getCachedSecrets_def fetchFreshSecrets_def
        emptySecretsState_def storeAnswers_def parseToExample_def exampleSecrets_def
        requiredFields_def fieldMissing_def)
  have h2: "sendCalls afterFirstGet \<noteq> sendCalls emptySecretsState"
    by (simp add: afterFirstGet_def getCachedSecrets_def fetchFreshSecrets_def
        emptySecretsState_def storeAnswers_def parseToExample_def exampleSecrets_def
        requiredFields_def fieldMissing_def)
  have h3: "dateNow (storeAnswers 60999) - dateNow (storeAnswers 1000) < 60000"
    by (simp add: storeAnswers_def)
  have h4: "\<not> dateNow (storeAnswers 61000) - dateNow (storeAnswers 1000) < 60000"
    by (simp add: storeAnswers_def)
  from getCachedSecrets_fetch_once [OF h1 h2 h3 h4] h1 show ?thesis
    by (simp add: emptySecretsState_def)
qed

text \<open>
  C7. Suppose \<open>getCachedSecrets\<close> has no valid entry for the key, so it must fetch.
  If the parsed response lacks a required field, the call rejects with an Error
  naming a missing required field; if the request to the store is rejected, the call
  rejects with a "Failed to retrieve secrets" Error carrying that rejection's message.
  Whenever the call rejects, the cache is exactly what it was (no entry stored, an
  expired entry still there), and every later call at a clock that has not gone back
  contacts the store again instead of serving the expired entry.
\<close>

theorem getCachedSecrets_failure_keeps_cache:
  assumes "\<forall>cached. secretsCache st key = Some cached \<longrightarrow>
      \<not> dateNow env - timestamp cached < ttl cached"
  shows "(\<forall>s parsed.
            sendResult env = Inr (Some s) \<and> s \<noteq> [] \<and> jsonParse env s = Inr parsed
              \<and> (\<exists>f\<in>set requiredFields. fieldMissing parsed f) \<longrightarrow>
            (\<exists>f\<in>set requiredFields. fieldMissing parsed f \<and>
               getCachedSecrets key ttlArg env st =
                 (Inl (JsError ''Error''
                    (''Failed to retrieve secrets: Missing required secret field: '' @ f) None),
                  st\<lparr>sendCalls := sendCalls st @ [key]\<rparr>)))
     \<and> (\<forall>e. sendResult env = Inl e \<longrightarrow>
            getCachedSecrets key ttlArg env st =
              (Inl (JsError ''Error''
                 (''Failed to retrieve secrets: '' @ messageOrUnknown e) None),
               st\<lparr>sendCalls := sendCalls st @ [key]\<rparr>))
     \<and> (\<forall>e st'. getCachedSecrets key ttlArg env st = (Inl e, st') \<longrightarrow>
            secretsCache st' = secretsCache st
            \<and> (\<forall>env' ttl'. dateNow env \<le> dateNow env' \<longrightarrow>
                 sendCalls (snd (getCachedSecrets key ttl' env' st')) = sendCalls st' @ [key]))"
proof (intro conjI allI impI)
  fix s parsed
  assume a: "sendResult env = Inr (Some s) \<and> s \<noteq> [] \<and> jsonParse env s = Inr parsed
              \<and> (\<exists>f\<in>set requiredFields. fieldMissing parsed f)"
  then obtain e where e: "validateRequiredFields parsed requiredFields = Inl e"
    using validateRequiredFields_missing by blast
  then obtain f where f: "f \<in> set requiredFields" "fieldMissing parsed f"
      "e = JsError ''Error'' (''Missing required secret field: '' @ f) None"
    using validateRequiredFields_Inl by blast
  have "fetchFreshSecrets key ttlArg env st = (Inl e, st\<lparr>sendCalls := sendCalls st @ [key]\<rparr>)"
    using a e by (simp add: fetchFreshSecrets_def)
  then have "getCachedSecrets key ttlArg env st =
      (Inl (JsError ''Error''
         (''Failed to retrieve secrets: Missing required secret field: '' @ f) None),
       st\<lparr>sendCalls := sendCalls st @ [key]\<rparr>)"
    by (simp add: getCachedSecrets_stale [OF assms] f(3))
  with f show "\<exists>f\<in>set requiredFields. fieldMissing parsed f \<and>
       getCachedSecrets key ttlArg env st =
         (Inl (JsError ''Error''
            (''Failed to retrieve secrets: Missing required secret field: '' @ f) None),
          st\<lparr>sendCalls := sendCalls st @ [key]\<rparr>)"
    by blast
next
  fix e
  assume "sendResult env = Inl e"
  then have "fetchFreshSecrets key ttlArg env st = (Inl e, st\<lparr>sendCalls := sendCalls st @ [key]\<rparr>)"
    by (simp add: fetchFreshSecrets_def)
  then show "getCachedSecrets key ttlArg env st =
      (Inl (JsError ''Error'' (''Failed to retrieve secrets: '' @ messageOrUnknown e) None),
       st\<lparr>sendCalls := sendCalls st @ [key]\<rparr>)"
    by (simp add: getCachedSecrets_stale [OF assms])
next
  fix e st'
  assume r: "getCachedSecrets key ttlArg env st = (Inl e, st')"
  then obtain e0 where "fetchFreshSecrets key ttlArg env st = (Inl e0, st')"
    by (auto simp add: getCachedSecrets_stale [OF assms] split: prod.splits sum.splits)
  then have st': "st' = st\<lparr>sendCalls := sendCalls st @ [key]\<rparr>"
    by (rule fetchFreshSecrets_Inl)
  then show "secretsCache st' = secretsCache st"
    by simp
  fix env' :: secrets_env and ttl' :: int
  assume "dateNow env \<le> dateNow env'"
  with assms have "\<forall>cached. secretsCache st' key = Some cached \<longrightarrow>
      \<not> dateNow env' - timestamp cached < ttl cached"
    by (auto simp add: st')
  then show "sendCalls (snd (getCachedSecrets key ttl' env' st')) = sendCalls st' @ [key]"
    by (rule getCachedSecrets_stale_sendCalls)
qed

theorem getCachedSecrets_failure_keeps_cache_witness:
  "secretsCache afterFirstGet ''test-secret'' =
     Some \<lparr>data = exampleSecrets, timestamp = 1000, ttl = 60000\<rparr>
   \<and> jsonParse (storeIncomplete 70000) ''{secret}'' = Inr incompleteSecrets
   \<and> fieldMissing incompleteSecrets ''gitUserName''
   \<and> getCachedSecrets ''test-secret'' 60000 (storeIncomplete 70000) afterFirstGet =
       (Inl (JsError ''Error''
          ''Failed to retrieve secrets: Missing required secret field: gitUserName'' None),
        afterFirstGet\<lparr>sendCalls := [''test-secret'', ''test-secret'']\<rparr>)
   \<and> getCachedSecrets ''test-secret'' 60000 (storeDown 70000) afterFirstGet =
       (Inl (JsError ''Error'' ''Failed to retrieve secrets: AWS SDK error'' None),
        afterFirstGet\<lparr>sendCalls := [''test-secret'', ''test-secret'']\<rparr>)
   \<and> secretsCache (afterFirstGet\<lparr>sendCalls := [''test-secret'', ''test-secret'']\<rparr>) =
       secretsCache afterFirstGet
   \<and> sendCalls (snd (getCachedSecrets ''test-secret'' 60000 (storeAnswers 80000)
        (afterFirstGet\<lparr>sendCalls := [''test-secret'', ''test-secret'']\<rparr>))) =
       [''test-secret'', ''test-secret'', ''test-secret'']"
proof -
  let ?st' = "afterFirstGet\<lparr>sendCalls := [''test-secret'', ''test-secret'']\<rparr>"
  have entry: "secretsCache afterFirstGet ''test-secret'' =
     Some \<lparr>data = exampleSecrets, timestamp = 1000, ttl = 60000\<rparr>"
    by (simp add: afterFirstGet_def getCachedSecrets_def fetchFreshSecrets_def
        emptySecretsState_def storeAnswers_def parseToExample_def exampleSecrets_def
        requiredFields_def fieldMissing_def)
  have calls: "sendCalls afterFirstGet = [''test-secret'']"
    by (simp add: afterFirstGet_def getCachedSecrets_def fetchFreshSecrets_def
        emptySecretsState_def storeAnswers_def parseToExample_def exampleSecrets_def
        requiredFields_def fieldMissing_def)
  have h1: "\<forall>cached. secretsCache afterFirstGet ''test-secret'' = Some cached \<longrightarrow>
      \<not> dateNow (storeIncomplete 70000) - timestamp cached < ttl cached"
    by (simp add: entry storeIncomplete_def)
  have h2: "\<forall>cached. secretsCache afterFirstGet ''test-secret'' = Some cached \<longrightarrow>
      \<not> dateNow (storeDown 70000) - timestamp cached < ttl cached"
    by (simp add: entry storeDown_def)
  have parse: "jsonParse (storeIncomplete 70000) ''{secret}'' = Inr incompleteSecrets"
    by (simp add: storeIncomplete_def parseToIncomplete_def)
  have missing: "fieldMissing incompleteSecrets ''gitUserName''"
    by (simp add: fieldMissing_def incompleteSecrets_def)
  have ante: "sendResult (storeIncomplete 70000) = Inr (Some ''{secret}'') \<and> ''{secret}'' \<noteq> []
      \<and> jsonParse (storeIncomplete 70000) ''{secret}'' = Inr incompleteSecrets
      \<and> (\<exists>f\<in>set requiredFields. fieldMissing incompleteSecrets f)"
    using parse missing by (simp add: storeIncomplete_def requiredFields_def)
  from getCachedSecrets_failure_keeps_cache [OF h1, of 60000, THEN conjunct1, rule_format, OF ante]
  obtain f where f: "fieldMissing incompleteSecrets f"
    and run: "getCachedSecrets ''test-secret'' 60000 (storeIncomplete 70000) afterFirstGet =
       (Inl (JsError ''Error''
          (''Failed to retrieve secrets: Missing required secret field: '' @ f) None),
        afterFirstGet\<lparr>sendCalls := sendCalls afterFirstGet @ [''test-secret'']\<rparr>)"
    by blast
  have first: "validateRequiredFields incompleteSecrets requiredFields =
      Inl (JsError ''Error'' ''Missing required secret field: gitUserName'' None)"
    by (simp add: requiredFields_def fieldMissing_def incompleteSecrets_def)
  have "fst (getCachedSecrets ''test-secret'' 60000 (storeIncomplete 70000) afterFirstGet) =
      Inl (JsError ''Error''
        ''Failed to retrieve secrets: Missing required secret field: gitUserName'' None)"
    unfolding getCachedSecrets_stale [OF h1]
    using first by (simp add: fetchFreshSecrets_def storeIncomplete_def parseToIncomplete_def)
  with run have "f = ''gitUserName''"
    by simp
  with run have a: "getCachedSecrets ''test-secret'' 60000 (storeIncomplete 70000) afterFirstGet =
       (Inl (JsError ''Error''
          ''Failed to retrieve secrets: Missing required secret field: gitUserName'' None), ?st')"
    by (simp add: calls)
  have down: "sendResult (storeDown 70000) = Inl (JsError ''Error'' ''AWS SDK error'' None)"
    by (simp add: storeDown_def)
  from getCachedSecrets_failure_keeps_cache [OF h2, of 60000, THEN conjunct2, THEN conjunct1,
      rule_format, OF down]
  have b: "getCachedSecrets ''test-secret'' 60000 (storeDown 70000) afterFirstGet =
       (Inl (JsError ''Error'' ''Failed to retrieve secrets: AWS SDK error'' None), ?st')"
    by (simp add: calls)
  have later: "dateNow (storeDown 70000) \<le> dateNow (storeAnswers 80000)"
    by (simp add: storeDown_def storeAnswers_def)
  note kept = getCachedSecrets_failure_keeps_cache [OF h2, of 60000, THEN conjunct2,
      THEN conjunct2, rule_format, OF b]
  from kept [THEN conjunct1] have c: "secretsCache ?st' = secretsCache afterFirstGet" .
  from kept [THEN conjunct2, rule_format, OF later, of 60000]
  have d: "sendCalls (snd (getCachedSecrets ''test-secret'' 60000 (storeAnswers 80000) ?st')) =
       [''test-secret'', ''test-secret'', ''test-secret'']"
    by simp
  from entry parse missing a b c d show ?thesis
    by simp
qed

text \<open>
  C10. Whether an existing entry is served depends on the \<open>ttl\<close> stored in the entry
  and never on the \<open>ttl\<close> argument of the call: while the stored \<open>ttl\<close> has not
  elapsed, a call with any argument \<open>t2\<close>, also one smaller than the entry's age,
  returns the cached value and leaves the state untouched (no request); once the stored
  \<open>ttl\<close> has elapsed, a call with any argument sends a request.
\<close>

theorem getCachedSecrets_uses_stored_ttl:
  assumes "secretsCache st key = Some cached"
  shows "(dateNow env - timestamp cached < ttl cached \<longrightarrow>
            (\<forall>t2. getCachedSecrets key t2 env st = (Inr (data cached), st)))
       \<and> (\<not> dateNow env - timestamp cached < ttl cached \<longrightarrow>
            (\<forall>t2. sendCalls (snd (getCachedSecrets key t2 env st)) = sendCalls st @ [key]))"
proof (intro conjI impI allI)
  fix t2
  assume "dateNow env - timestamp cached < ttl cached"
  with assms show "getCachedSecrets key t2 env st = (Inr (data cached), st)"
    by (rule getCachedSecrets_valid)
next
  fix t2
  assume "\<not> dateNow env - timestamp cached < ttl cached"
  with assms have "\<forall>c. secretsCache st key = Some c \<longrightarrow>
      \<not> dateNow env - timestamp c < ttl c"
    by simp
  then show "sendCalls (snd (getCachedSecrets key t2 env st)) = sendCalls st @ [key]"
    by (rule getCachedSecrets_stale_sendCalls)
qed

theorem getCachedSecrets_uses_stored_ttl_witness:
  "secretsCache afterFirstGet ''test-secret'' =
     Some \<lparr>data = exampleSecrets, timestamp = 1000, ttl = 60000\<rparr>
   \<and> (50 :: int) < dateNow (storeDown 31000) - 1000
   \<and> getCachedSecrets ''test-secret'' 50 (storeDown 31000) afterFirstGet =
       (Inr exampleSecrets, afterFirstGet)
   \<and> sendCalls (snd (getCachedSecrets ''test-secret'' 3600000 (storeDown 61000) afterFirstGet)) =
       [''test-secret'', ''test-secret'']"
proof -
  have entry: "secretsCache afterFirstGet ''test-secret'' =
     Some \<lparr>data = exampleSecrets, timestamp = 1000, ttl = 60000\<rparr>"
    by (simp add: afterFirstGet_def getCachedSecrets_def fetchFreshSecrets_def
        emptySecretsState_def storeAnswers_def parseToExample_def exampleSecrets_def
        requiredFields_def fieldMissing_def)
  have calls: "sendCalls afterFirstGet = [''test-secret'']"
    by (simp add: afterFirstGet_def getCachedSecrets_def fetchFreshSecrets_def
        emptySecretsState_def storeAnswers_def parseToExample_def exampleSecrets_def
        requiredFields_def fieldMissing_def)
  from getCachedSecrets_uses_stored_ttl [OF entry, of "storeDown 31000"]
    getCachedSecrets_uses_stored_ttl [OF entry, of "storeDown 61000"] entry calls
  show ?thesis
    by (simp add: storeDown_def)
qed

section \<open>Rate limiter\<close>

text \<open>
  C9. For an identifier the map does not know, with a limit of 5: the first call and
  the next four calls made no later than the first call's \<open>resetTime\<close> return true,
  the sixth such call returns false and the entry then holds count 5; a following call
  made after \<open>resetTime\<close> returns true and replaces the entry by a fresh one with
  count 1 and a window starting at that call.
\<close>

theorem checkRateLimit_window:
  assumes "rateLimitMap identifier = None"
    and "t2 \<le> t1 + windowMs" "t3 \<le> t1 + windowMs" "t4 \<le> t1 + windowMs"
      "t5 \<le> t1 + windowMs" "t6 \<le> t1 + windowMs"
    and "t7 > t1 + windowMs"
  shows "checkRateLimit_calls identifier 5 windowMs [t1, t2, t3, t4, t5, t6] rateLimitMap =
           ([True, True, True, True, True, False],
            rateLimitMap(identifier \<mapsto> \<lparr>count = 5, resetTime = t1 + windowMs\<rparr>))
       \<and> checkRateLimit_calls identifier 5 windowMs [t1, t2, t3, t4, t5, t6, t7] rateLimitMap =
           ([True, True, True, True, True, False, True],
            rateLimitMap(identifier \<mapsto> \<lparr>count = 1, resetTime = t7 + windowMs\<rparr>))"
  using assms by (simp add: checkRateLimit_def)

theorem checkRateLimit_window_witness:
  "checkRateLimit_calls ''test-client-2'' 5 1000 [1000, 1001, 1002, 1500, 1999, 2000] Map.empty =
     ([True, True, True, True, True, False],
      [''test-client-2'' \<mapsto> \<lparr>count = 5, resetTime = 2000\<rparr>])
   \<and> checkRateLimit_calls ''test-client-2'' 5 1000
       [1000, 1001, 1002, 1500, 1999, 2000, 2001] Map.empty =
     ([True, True, True, True, True, False, True],
      [''test-client-2'' \<mapsto> \<lparr>count = 1, resetTime = 3001\<rparr>])"
  using checkRateLimit_window [of Map.empty "''test-client-2''" 1001 1000 1000 1002 1500 1999 2000 2001]
  by simp

section \<open>Metrics batch\<close>

lemma sendBatchedMetrics_success:
  "batch st \<noteq> [] \<Longrightarrow> publishResult env = Inr u \<Longrightarrow>
   sendBatchedMetrics functionName env st =
     st\<lparr>published := published st @
          [\<lparr>Namespace = ''Lambda/'' @ functionName,
            MetricData = metricData (aggregatedMetrics (batch st)) (flushDate env)\<rparr>],
        arrays := (arrays st)(nextArray st := []),
        nextArray := nextArray st + 1,
        metricsCache := nextArray st,
        lastMetricsSend := nowAfterSend env\<rparr>"
  by (simp add: sendBatchedMetrics_def sendBatchedMetrics_try_def newArray_def Let_def)

lemma sendBatchedMetrics_failure:
  "batch st \<noteq> [] \<Longrightarrow> publishResult env = Inl e \<Longrightarrow>
   sendBatchedMetrics functionName env st =
     st\<lparr>published := published st @
          [\<lparr>Namespace = ''Lambda/'' @ functionName,
            MetricData = metricData (aggregatedMetrics (batch st)) (flushDate env)\<rparr>],
        arrays := (arrays st)(nextArray st := []),
        nextArray := nextArray st + 1,
        metricsCache := nextArray st\<rparr>"
  by (simp add: sendBatchedMetrics_def sendBatchedMetrics_try_def newArray_def Let_def)

lemma sendBatchedMetrics_batch:
  "batch st \<noteq> [] \<Longrightarrow> batch (sendBatchedMetrics functionName env st) = []"
  by (cases "publishResult env")
     (simp_all add: sendBatchedMetrics_failure sendBatchedMetrics_success batch_def)

lemma sendBatchedMetrics_published:
  "batch st \<noteq> [] \<Longrightarrow>
   published (sendBatchedMetrics functionName env st) =
     published st @
       [\<lparr>Namespace = ''Lambda/'' @ functionName,
         MetricData = metricData (aggregatedMetrics (batch st)) (flushDate env)\<rparr>]"
  by (cases "publishResult env")
     (simp_all add: sendBatchedMetrics_failure sendBatchedMetrics_success)

text \<open>The two example states of the warm process, written out.\<close>

lemma afterFirstRecord_eq:
  "afterFirstRecord =
     \<lparr>arrays = (\<lambda>a. [])(0 := [metricA], 1 := []), nextArray = 2, metricsCache = 1,
      globalMetricsCache = Some 0, lastMetricsSend = 1700000000001,
      published = [\<lparr>Namespace = ''Lambda/daily-commit'',
        MetricData = metricData (aggregatedMetrics [metricA]) 1700000000000\<rparr>]\<rparr>"
  by (simp add: afterFirstRecord_def sendOptimizedMetrics_def monitoringLoaded_def batch_def
      METRICS_BATCH_TIMEOUT_def sendBatchedMetrics_def sendBatchedMetrics_try_def newArray_def
      sinkUp_def Let_def)

lemma afterSecondRecord_eq:
  "afterSecondRecord =
     \<lparr>arrays = (\<lambda>a. [])(0 := [metricA], 1 := [metricB]), nextArray = 2, metricsCache = 1,
      globalMetricsCache = Some 0, lastMetricsSend = 1700000000001,
      published = [\<lparr>Namespace = ''Lambda/daily-commit'',
        MetricData = metricData (aggregatedMetrics [metricA]) 1700000000000\<rparr>]\<rparr>"
  by (simp add: afterSecondRecord_def afterFirstRecord_eq sendOptimizedMetrics_def batch_def
      METRICS_BATCH_TIMEOUT_def Let_def)

text \<open>
  C2, as the code has it. A flush of a non-empty batch always leaves the batch empty.
  \<open>lastMetricsSend\<close> is set to the clock read after the send when the transmission
  succeeds, and keeps its old value when the transmission fails.
\<close>

theorem sendBatchedMetrics_flush:
  assumes "batch st \<noteq> []"
  shows "batch (sendBatchedMetrics functionName env st) = []
     \<and> (\<forall>u. publishResult env = Inr u \<longrightarrow>
          lastMetricsSend (sendBatchedMetrics functionName env st) = nowAfterSend env)
     \<and> (\<forall>e. publishResult env = Inl e \<longrightarrow>
          lastMetricsSend (sendBatchedMetrics functionName env st) = lastMetricsSend st)"
proof (cases "publishResult env")
  case (Inl e)
  with assms show ?thesis
    by (simp add: sendBatchedMetrics_failure batch_def)
next
  case (Inr u)
  with assms show ?thesis
    by (simp add: sendBatchedMetrics_success batch_def)
qed

theorem sendBatchedMetrics_flush_witness:
  "batch afterSecondRecord \<noteq> []
   \<and> batch (sendBatchedMetrics ''daily-commit'' (sinkUp 1700000400000) afterSecondRecord) = []
   \<and> lastMetricsSend (sendBatchedMetrics ''daily-commit'' (sinkUp 1700000400000)
        afterSecondRecord) = 1700000400001
   \<and> batch (sendBatchedMetrics ''daily-commit'' (sinkDown 1700000400000) afterSecondRecord) = []
   \<and> lastMetricsSend (sendBatchedMetrics ''daily-commit'' (sinkDown 1700000400000)
        afterSecondRecord) = lastMetricsSend afterSecondRecord"
proof -
  have ne: "batch afterSecondRecord \<noteq> []"
    by (simp add: afterSecondRecord_eq batch_def)
  from sendBatchedMetrics_flush [OF ne, of "''daily-commit''" "sinkUp 1700000400000"]
    sendBatchedMetrics_flush [OF ne, of "''daily-commit''" "sinkDown 1700000400000"] ne
  show ?thesis
    by (simp add: sinkUp_def sinkDown_def)
qed

text \<open>
  The claim as the specification words it, that \<open>lastMetricsSend\<close> is set to the
  current time also when the transmission fails, does not hold: a flush at
  1700000400000 whose send is rejected leaves \<open>lastMetricsSend\<close> at the time of the
  earlier flush.
\<close>

theorem sendBatchedMetrics_failed_send_counterexample:
  "batch afterSecondRecord = [metricB]
   \<and> publishResult (sinkDown 1700000400000) = Inl (JsError ''Error'' ''CloudWatch error'' None)
   \<and> flushDate (sinkDown 1700000400000) = 1700000400000
   \<and> lastMetricsSend (sendBatchedMetrics ''daily-commit'' (sinkDown 1700000400000)
        afterSecondRecord) = 1700000000001"
  by (simp add: afterSecondRecord_eq batch_def sinkDown_def sendBatchedMetrics_def
      sendBatchedMetrics_try_def newArray_def Let_def)

text \<open>
  C6. The record call that brings the batch length to the batch size sends exactly
  one command to the sink, the aggregate of the whole batch including the new record,
  whose \<open>totalExecutions\<close> equals the batch size, and the batch is empty when the call
  returns.
\<close>

theorem sendOptimizedMetrics_threshold_flush:
  assumes "int (length (batch st)) + 1 = batchSize"
  shows "batch (sendOptimizedMetrics batchSize metrics functionName now env st) = []
     \<and> published (sendOptimizedMetrics batchSize metrics functionName now env st) =
         published st @
           [\<lparr>Namespace = ''Lambda/'' @ functionName,
             MetricData = metricData (aggregatedMetrics (batch st @ [metrics])) (flushDate env)\<rparr>]
     \<and> int (totalExecutions (aggregatedMetrics (batch st @ [metrics]))) = batchSize
     \<and> hd (metricData (aggregatedMetrics (batch st @ [metrics])) (flushDate env)) =
         \<lparr>MetricName = ''TotalExecutions'', Value = real_of_int batchSize,
          Unit = ''Count'', Timestamp = flushDate env\<rparr>"
proof -
  let ?st1 = "st\<lparr>arrays := (arrays st)(metricsCache st := arrays st (metricsCache st) @ [metrics])\<rparr>"
  have b1: "batch ?st1 = batch st @ [metrics]"
    by (simp add: batch_def)
  have eq: "sendOptimizedMetrics batchSize metrics functionName now env st =
        sendBatchedMetrics functionName env ?st1"
    using assms by (simp add: sendOptimizedMetrics_def Let_def b1)
  have ne: "batch ?st1 \<noteq> []"
    by (simp add: b1)
  have p: "published (sendBatchedMetrics functionName env ?st1) = published st @
           [\<lparr>Namespace = ''Lambda/'' @ functionName,
             MetricData = metricData (aggregatedMetrics (batch st @ [metrics])) (flushDate env)\<rparr>]"
    using sendBatchedMetrics_published [OF ne, of functionName env] by (simp add: b1)
  have e: "batch (sendBatchedMetrics functionName env ?st1) = []"
    using ne by (rule sendBatchedMetrics_batch)
  have n: "int (totalExecutions (aggregatedMetrics (batch st @ [metrics]))) = batchSize"
    using assms by (simp add: aggregatedMetrics_def)
  have h: "hd (metricData (aggregatedMetrics (batch st @ [metrics])) (flushDate env)) =
         \<lparr>MetricName = ''TotalExecutions'', Value = real_of_int batchSize,
          Unit = ''Count'', Timestamp = flushDate env\<rparr>"
    using assms by (simp add: metricData_def aggregatedMetrics_def)
  from e p n h show ?thesis
    by (simp add: eq)
qed

theorem sendOptimizedMetrics_threshold_flush_witness:
  "int (length (batch afterSecondRecord)) + 1 = 2
   \<and> \<not> 1700000061000 - lastMetricsSend afterSecondRecord > METRICS_BATCH_TIMEOUT
   \<and> batch (sendOptimizedMetrics 2 metricA ''daily-commit'' 1700000061000
        (sinkUp 1700000061000) afterSecondRecord) = []
   \<and> published (sendOptimizedMetrics 2 metricA ''daily-commit'' 1700000061000
        (sinkUp 1700000061000) afterSecondRecord) =
       published afterSecondRecord @
         [\<lparr>Namespace = ''Lambda/daily-commit'',
           MetricData = metricData (aggregatedMetrics [metricB, metricA]) 1700000061000\<rparr>]
   \<and> totalExecutions (aggregatedMetrics [metricB, metricA]) = 2"
proof -
  have b: "batch afterSecondRecord = [metricB]"
    by (simp add: afterSecondRecord_eq batch_def)
  have h: "int (length (batch afterSecondRecord)) + 1 = 2"
    by (simp add: b)
  have t: "\<not> 1700000061000 - lastMetricsSend afterSecondRecord > METRICS_BATCH_TIMEOUT"
    by (simp add: afterSecondRecord_eq METRICS_BATCH_TIMEOUT_def)
  from sendOptimizedMetrics_threshold_flush [OF h, of metricA "''daily-commit''" 1700000061000
      "sinkUp 1700000061000"] h t
  show ?thesis
    by (simp add: b sinkUp_def)
qed

section \<open>Lifecycle reset\<close>

lemma resetGitState_returns:
  "fst (resetGitState env st) = Inr ()"
  by (simp add: resetGitState_def Let_def split: sum.splits)

lemma resetGitState_keeps:
  "secrets (snd (resetGitState env st)) = secrets st
   \<and> monitoring (snd (resetGitState env st)) = monitoring st"
  by (simp add: resetGitState_def runGit_def Let_def split: sum.splits)

text \<open>The cleanup always completes normally and always empties the secrets cache.\<close>

lemma cleanupLambdaState_returns:
  "fst (cleanupLambdaState env st) = Inr ()"
  by (simp add: cleanupLambdaState_def split: prod.splits sum.splits)

lemma cleanupLambdaState_snd:
  "snd (cleanupLambdaState env st) = snd (cleanupLambdaState_try env st)"
  by (simp add: cleanupLambdaState_def split: prod.splits sum.splits)

lemma cleanupLambdaState_clears_secrets:
  "secretsCache (secrets (snd (cleanupLambdaState env st))) = Map.empty"
  by (simp add: cleanupLambdaState_snd cleanupLambdaState_try_def resetGitState_keeps
      clearSecretsCache_def newArray_def Let_def split: option.splits)

text \<open>
  The cleanup rebinds \<open>global.metricsCache\<close> to a new array and never touches the
  array the module variable refers to: the batch is what it was.
\<close>

lemma cleanupLambdaState_keeps_batch:
  "metricsCache (monitoring st) < nextArray (monitoring st) \<Longrightarrow>
   batch (monitoring (snd (cleanupLambdaState env st))) = batch (monitoring st)"
  by (simp add: cleanupLambdaState_snd cleanupLambdaState_try_def resetGitState_keeps
      clearSecretsCache_def newArray_def batch_def Let_def split: option.splits)

text \<open>
  The premise of the last lemma holds in every state the module can reach: it holds
  after loading, and recording and flushing keep it.
\<close>

lemma monitoringLoaded_allocated:
  "metricsCache monitoringLoaded < nextArray monitoringLoaded"
  by (simp add: monitoringLoaded_def)

lemma sendBatchedMetrics_allocated:
  "metricsCache st < nextArray st \<Longrightarrow>
   metricsCache (sendBatchedMetrics functionName env st)
     < nextArray (sendBatchedMetrics functionName env st)"
  by (simp add: sendBatchedMetrics_def sendBatchedMetrics_try_def newArray_def Let_def
      split: sum.splits)

lemma sendOptimizedMetrics_allocated:
  "metricsCache st < nextArray st \<Longrightarrow>
   metricsCache (sendOptimizedMetrics batchSize metrics functionName now env st)
     < nextArray (sendOptimizedMetrics batchSize metrics functionName now env st)"
  by (simp add: sendOptimizedMetrics_def sendBatchedMetrics_allocated Let_def)

text \<open>
  C1, on the warm process: the secrets cache holds an entry and the batch holds
  \<open>metricB\<close>; \<open>git reset\<close> fails. \<open>cleanupLambdaState\<close> completes normally and the
  secrets cache is empty afterwards, but the batch still holds \<open>metricB\<close>: only
  \<open>global.metricsCache\<close> was rebound to a new empty array.
\<close>

theorem cleanupLambdaState_warm_process:
  "secretsCache (secrets warmProcess) ''daily-commit-secrets'' =
     Some \<lparr>data = exampleSecrets, timestamp = 1700000059000, ttl = 300000\<rparr>
   \<and> batch (monitoring warmProcess) = [metricB]
   \<and> fst (cleanupLambdaState gitResetFails warmProcess) = Inr ()
   \<and> secretsCache (secrets (snd (cleanupLambdaState gitResetFails warmProcess))) = Map.empty
   \<and> batch (monitoring (snd (cleanupLambdaState gitResetFails warmProcess))) = [metricB]
   \<and> globalMetricsCache (monitoring (snd (cleanupLambdaState gitResetFails warmProcess))) = Some 2
   \<and> arrays (monitoring (snd (cleanupLambdaState gitResetFails warmProcess))) 2 = []
   \<and> gitCommands (snd (cleanupLambdaState gitResetFails warmProcess)) =
       [''git rev-parse --git-dir'', ''git reset --hard HEAD'', ''git clean -fd'']"
proof -
  have s: "secrets warmProcess =
      \<lparr>secretsCache = [''daily-commit-secrets'' \<mapsto>
          \<lparr>data = exampleSecrets, timestamp = 1700000059000, ttl = 300000\<rparr>],
       sendCalls = [''daily-commit-secrets'']\<rparr>"
    by (simp add: warmProcess_def getCachedSecrets_def fetchFreshSecrets_def
        emptySecretsState_def storeAnswers_def parseToExample_def exampleSecrets_def
        requiredFields_def fieldMissing_def)
  have m: "monitoring warmProcess = afterSecondRecord"
    by (simp add: warmProcess_def)
  have g: "gitCommands warmProcess = []"
    by (simp add: warmProcess_def)
  have after: "snd (cleanupLambdaState gitResetFails warmProcess) =
      \<lparr>secrets = \<lparr>secretsCache = Map.empty, sendCalls = [''daily-commit-secrets'']\<rparr>,
       monitoring = afterSecondRecord
         \<lparr>arrays := (arrays afterSecondRecord)(2 := []), nextArray := 3,
          globalMetricsCache := Some 2\<rparr>,
       gitCommands = [''git rev-parse --git-dir'', ''git reset --hard HEAD'', ''git clean -fd'']\<rparr>"
    using s m g
    by (cases warmProcess)
       (simp add: cleanupLambdaState_snd cleanupLambdaState_try_def resetGitState_def
        runGit_def clearSecretsCache_def newArray_def gitResetFails_def afterSecondRecord_eq
        Let_def)
  show ?thesis
    by (simp add: after cleanupLambdaState_returns s m afterSecondRecord_eq batch_def)
qed

end
